theory Spec2Isabelle
  imports Main
begin

section \<open>The date library, as far as the calendar state hook uses it\<close>

text \<open>
  Modelled from the spec: the date library (\<^verbatim>\<open>@internationalized/date\<close>), which is not
  among the sources. The spec describes a \<^verbatim>\<open>CalendarDate\<close> as an immutable point in a
  specific calendar system that supports comparison and adding and subtracting durations, and
  says that switching the calendar system keeps the same absolute day. The model keeps, for a
  date, the identifier of its calendar system and the absolute day it denotes; the
  era/year/month/day fields of the library are the calendar's rendering of that day. A
  \<^verbatim>\<open>DateDuration\<close> has a number of years, months, weeks and days; a field that is absent
  is 0, which the hook's tests (\<^verbatim>\<open>if (visibleDuration.days)\<close>) do not tell apart.
\<close>

record DateDuration =
  years :: int
  months :: int
  weeks :: int
  days :: int

record CalendarDate =
  calendar :: string
  day :: int

text \<open>
  A \<^verbatim>\<open>DateValue\<close> is a \<^verbatim>\<open>CalendarDate\<close>, a \<^verbatim>\<open>CalendarDateTime\<close> or a
  \<^verbatim>\<open>ZonedDateTime\<close>: a date with an optional time of day (hour, minute, second,
  millisecond) and an optional time zone. \<^verbatim>\<open>'hour' in value\<close> is \<open>time v \<noteq> None\<close>.
\<close>

record DateValue = CalendarDate +
  time :: "(nat \<times> nat \<times> nat \<times> nat) option"
  timeZone :: "string option"

definition GregorianCalendar :: string where
  "GregorianCalendar = ''gregory''"

definition toCalendarDate :: "DateValue \<Rightarrow> CalendarDate" where
  "toCalendarDate v = \<lparr>calendar = calendar v, day = day v\<rparr>"

text \<open>A plain \<^verbatim>\<open>CalendarDate\<close> seen as a \<^verbatim>\<open>DateValue\<close>: no time, no time zone.\<close>

definition dateValue :: "CalendarDate \<Rightarrow> DateValue" where
  "dateValue d = \<lparr>calendar = calendar d, day = day d, time = None, timeZone = None\<rparr>"

text \<open>\<^verbatim>\<open>toCalendar(date, calendar)\<close>: the same absolute day in another calendar system.\<close>

definition toCalendar :: "CalendarDate \<Rightarrow> string \<Rightarrow> CalendarDate" where
  "toCalendar d c = d\<lparr>calendar := c\<rparr>"

text \<open>\<^verbatim>\<open>a.compare(b)\<close>: negative, zero or positive as \<open>a\<close> is before, on or after \<open>b\<close>.\<close>

definition compare :: "CalendarDate \<Rightarrow> CalendarDate \<Rightarrow> int" where
  "compare a b = day a - day b"

definition isSameDay :: "CalendarDate \<Rightarrow> CalendarDate \<Rightarrow> bool" where
  "isSameDay a b = (day a = day b)"

text \<open>
  \<^verbatim>\<open>value.set(fields)\<close> with the fields of a date of the value's own calendar: the date
  fields are replaced, the time of day and the time zone stay.
\<close>

definition set_date :: "DateValue \<Rightarrow> CalendarDate \<Rightarrow> DateValue" where
  "set_date v d = v\<lparr>day := day d\<rparr>"

section \<open>What the hook calls and the sources do not hold\<close>

text \<open>
  The arithmetic on months and years belongs to each calendar system of the date library,
  which is not among the sources, so the functions below take it as a parameter:
  \<open>A c x y m\<close> is the absolute day that calendar \<open>c\<close> reaches from day \<open>x\<close> after
  \<open>y\<close> years and \<open>m\<close> months.
\<close>

type_synonym calendarArithmetic = "string \<Rightarrow> int \<Rightarrow> int \<Rightarrow> int \<Rightarrow> int"

text \<open>
  \<^verbatim>\<open>date.add(duration)\<close> and \<^verbatim>\<open>date.subtract(duration)\<close>: years and months move the date
  by the calendar's arithmetic, weeks and days by counting days.
\<close>

definition add :: "calendarArithmetic \<Rightarrow> CalendarDate \<Rightarrow> DateDuration \<Rightarrow> CalendarDate" where
  "add A d dur =
     d\<lparr>day := (if years dur = 0 \<and> months dur = 0 then day d
               else A (calendar d) (day d) (years dur) (months dur))
             + 7 * weeks dur + days dur\<rparr>"

definition subtract :: "calendarArithmetic \<Rightarrow> CalendarDate \<Rightarrow> DateDuration \<Rightarrow> CalendarDate" where
  "subtract A d dur =
     add A d \<lparr>years = - years dur, months = - months dur, weeks = - weeks dur, days = - days dur\<rparr>"

text \<open>
  The hook imports \<^verbatim>\<open>alignStart\<close>, \<^verbatim>\<open>alignEnd\<close>, \<^verbatim>\<open>alignCenter\<close> and
  \<^verbatim>\<open>constrainStart\<close> from \<^verbatim>\<open>./utils\<close>, which is not among the sources either. The hook's
  functions take them as a parameter too, with the arguments the hook passes: the date, (for
  \<^verbatim>\<open>constrainStart\<close>) the aligned start, the visible duration, the locale and the bounds.
\<close>

record utils =
  alignStart :: "CalendarDate \<Rightarrow> DateDuration \<Rightarrow> string \<Rightarrow> DateValue option \<Rightarrow> DateValue option \<Rightarrow> CalendarDate"
  alignEnd :: "CalendarDate \<Rightarrow> DateDuration \<Rightarrow> string \<Rightarrow> DateValue option \<Rightarrow> DateValue option \<Rightarrow> CalendarDate"
  alignCenter :: "CalendarDate \<Rightarrow> DateDuration \<Rightarrow> string \<Rightarrow> DateValue option \<Rightarrow> DateValue option \<Rightarrow> CalendarDate"
  constrainStart :: "CalendarDate \<Rightarrow> CalendarDate \<Rightarrow> DateDuration \<Rightarrow> string \<Rightarrow> DateValue option \<Rightarrow> DateValue option \<Rightarrow> CalendarDate"

definition oneDay :: DateDuration where
  "oneDay = \<lparr>years = 0, months = 0, weeks = 0, days = 1\<rparr>"


definition oneMonth :: DateDuration where
  "oneMonth = \<lparr>years = 0, months = 1, weeks = 0, days = 0\<rparr>"


text \<open>
  Modelled from the spec: \<^verbatim>\<open>isInvalid\<close> and \<^verbatim>\<open>constrainValue\<close> of \<^verbatim>\<open>./utils\<close>, which are
  not among the sources. A date is invalid when it lies before the lower or after the upper
  bound, where a bound is given; \<^verbatim>\<open>constrainValue\<close> clamps a date to the bounds and
  leaves a date within them as it is.
\<close>

definition isInvalid :: "CalendarDate \<Rightarrow> DateValue option \<Rightarrow> DateValue option \<Rightarrow> bool" where
  "isInvalid date minValue maxValue =
     ((case minValue of None \<Rightarrow> False | Some m \<Rightarrow> compare date (toCalendarDate m) < 0) \<or>
      (case maxValue of None \<Rightarrow> False | Some m \<Rightarrow> compare date (toCalendarDate m) > 0))"

definition maxDate :: "CalendarDate \<Rightarrow> CalendarDate \<Rightarrow> CalendarDate" where
  "maxDate a b = (if compare a b \<ge> 0 then a else b)"

definition minDate :: "CalendarDate \<Rightarrow> CalendarDate \<Rightarrow> CalendarDate" where
  "minDate a b = (if compare a b \<le> 0 then a else b)"

definition constrainValue :: "CalendarDate \<Rightarrow> DateValue option \<Rightarrow> DateValue option \<Rightarrow> CalendarDate" where
  "constrainValue date minValue maxValue =
     (let d1 = (case minValue of None \<Rightarrow> date | Some m \<Rightarrow> maxDate date (toCalendarDate m))
      in (case maxValue of None \<Rightarrow> d1 | Some m \<Rightarrow> minDate d1 (toCalendarDate m)))"

section \<open>The calendar state hook\<close>

datatype Alignment = AlignToStart | AlignToCenter | AlignToEnd

text \<open>
  \<^verbatim>\<open>CalendarStateOptions\<close>, the hook's props. \<open>activeCalendar\<close> is the identifier of
  \<^verbatim>\<open>createCalendar(resolvedOptions.calendar)\<close>, the calendar system of the locale.
\<close>

record CalendarStateOptions =
  localeName :: string
  activeCalendar :: string
  visibleDuration :: "DateDuration option"
  minValue :: "DateValue option"
  maxValue :: "DateValue option"
  selectionAlignment :: "Alignment option"
  propValue :: "DateValue option"
  defaultValue :: "DateValue option"
  focusedValue :: "DateValue option"
  defaultFocusedValue :: "DateValue option"
  autoFocus :: bool
  isDisabled :: bool
  isReadOnly :: bool
  isDateUnavailable :: "(CalendarDate \<Rightarrow> bool) option"

text \<open>
  What the hook keeps between render passes: the two values of \<^verbatim>\<open>useControlledState\<close>
  (used when the prop is absent), the two \<^verbatim>\<open>useState\<close> cells and the \<^verbatim>\<open>useRef\<close>.
\<close>

record CalendarHookState =
  stateValue :: "DateValue option"
  stateFocusedDate :: CalendarDate
  startDate :: CalendarDate
  isFocused :: bool
  lastCalendarIdentifier :: string

text \<open>\<^verbatim>\<open>visibleDuration = {months: 1}\<close> is the default of the destructuring.\<close>

definition visDuration :: "CalendarStateOptions \<Rightarrow> DateDuration" where
  "visDuration p = (case visibleDuration p of None \<Rightarrow> oneMonth | Some d \<Rightarrow> d)"

text \<open>The value of \<^verbatim>\<open>useControlledState(props.value, props.defaultValue, props.onChange)\<close>.\<close>

definition currentValue :: "CalendarStateOptions \<Rightarrow> CalendarHookState \<Rightarrow> DateValue option" where
  "currentValue p st = (case propValue p of Some v \<Rightarrow> Some v | None \<Rightarrow> stateValue st)"

definition calendarDateValue :: "CalendarStateOptions \<Rightarrow> CalendarHookState \<Rightarrow> CalendarDate option" where
  "calendarDateValue p st =
     (case currentValue p st of
        Some v \<Rightarrow> Some (toCalendar (toCalendarDate v) (activeCalendar p))
      | None \<Rightarrow> None)"

definition focusedCalendarDate :: "CalendarStateOptions \<Rightarrow> CalendarDate option" where
  "focusedCalendarDate p =
     (case focusedValue p of
        Some v \<Rightarrow> Some (constrainValue (toCalendar (toCalendarDate v) (activeCalendar p))
                          (minValue p) (maxValue p))
      | None \<Rightarrow> None)"

text \<open>The value of \<^verbatim>\<open>useControlledState(focusedCalendarDate, defaultFocusedCalendarDate, ...)\<close>.\<close>

definition focusedDate :: "CalendarStateOptions \<Rightarrow> CalendarHookState \<Rightarrow> CalendarDate" where
  "focusedDate p st = (case focusedCalendarDate p of Some d \<Rightarrow> d | None \<Rightarrow> stateFocusedDate st)"

text \<open>
  The setters of \<^verbatim>\<open>useControlledState\<close>: the hook's own state changes only when the prop is
  absent; the new value goes to the change handler either way. \<open>setControlledValue\<close>
  returns the value handed to \<^verbatim>\<open>onChange\<close> beside the state.
\<close>

definition setFocusedDate :: "CalendarStateOptions \<Rightarrow> CalendarHookState \<Rightarrow> CalendarDate \<Rightarrow> CalendarHookState" where
  "setFocusedDate p st d = (if focusedValue p = None then st\<lparr>stateFocusedDate := d\<rparr> else st)"

definition setControlledValue :: "CalendarStateOptions \<Rightarrow> CalendarHookState \<Rightarrow> DateValue \<Rightarrow> CalendarHookState \<times> DateValue option" where
  "setControlledValue p st v =
     ((if propValue p = None then st\<lparr>stateValue := Some v\<rparr> else st), Some v)"

definition endDate :: "calendarArithmetic \<Rightarrow> CalendarStateOptions \<Rightarrow> CalendarHookState \<Rightarrow> CalendarDate" where
  "endDate A p st = subtract A (add A (startDate st) (visDuration p)) oneDay"

definition visibleRange :: "calendarArithmetic \<Rightarrow> CalendarStateOptions \<Rightarrow> CalendarHookState \<Rightarrow> CalendarDate \<times> CalendarDate" where
  "visibleRange A p st = (startDate st, endDate A p st)"


definition setValue :: "CalendarStateOptions \<Rightarrow> CalendarHookState \<Rightarrow> CalendarDate \<Rightarrow> CalendarHookState \<times> DateValue option" where
  "setValue p st newValue =
     (if \<not> isDisabled p \<and> \<not> isReadOnly p then
        (let newValue' = toCalendar newValue
               (case currentValue p st of Some v \<Rightarrow> calendar v | None \<Rightarrow> GregorianCalendar)
         in (case currentValue p st of
               Some v \<Rightarrow>
                 if time v \<noteq> None then setControlledValue p st (set_date v newValue')
                 else setControlledValue p st (dateValue newValue')
             | None \<Rightarrow> setControlledValue p st (dateValue newValue')))
      else (st, None))"



text \<open>
  One render pass, as far as it sets state. The pass reads \<open>focusedDate\<close> and
  \<open>startDate\<close> as they were when it began; a setter called later in the pass replaces
  what an earlier call of the same setter asked for.
\<close>

definition render :: "calendarArithmetic \<Rightarrow> utils \<Rightarrow> CalendarStateOptions \<Rightarrow> CalendarHookState \<Rightarrow> CalendarHookState" where
  "render A U p st =
     (let focused = focusedDate p st;
          start = startDate st;
          st1 = (if activeCalendar p \<noteq> lastCalendarIdentifier st then
                   (let newFocusedDate = toCalendar focused (activeCalendar p)
                    in (setFocusedDate p
                          (st\<lparr>startDate := alignCenter U newFocusedDate (visDuration p)
                                               (localeName p) (minValue p) (maxValue p)\<rparr>)
                          newFocusedDate)
                       \<lparr>lastCalendarIdentifier := activeCalendar p\<rparr>)
                 else st)
      in if isInvalid focused (minValue p) (maxValue p) then
           setFocusedDate p st1 (constrainValue focused (minValue p) (maxValue p))
         else if compare focused start < 0 then
           st1\<lparr>startDate := alignEnd U focused (visDuration p) (localeName p) (minValue p) (maxValue p)\<rparr>
         else if compare focused (add A start (visDuration p)) \<ge> 0 then
           st1\<lparr>startDate := alignStart U focused (visDuration p) (localeName p) (minValue p) (maxValue p)\<rparr>
         else st1)"




subsection \<open>The operations of the returned state object\<close>




definition focusNextPage :: "calendarArithmetic \<Rightarrow> utils \<Rightarrow> CalendarStateOptions \<Rightarrow> CalendarHookState \<Rightarrow> CalendarHookState" where
  "focusNextPage A U p st =
     (let start = add A (startDate st) (visDuration p)
      in (setFocusedDate p st
            (constrainValue (add A (focusedDate p st) (visDuration p)) (minValue p) (maxValue p)))
         \<lparr>startDate := constrainStart U (focusedDate p st) start (visDuration p)
                          (localeName p) (minValue p) (maxValue p)\<rparr>)"

definition focusPreviousPage :: "calendarArithmetic \<Rightarrow> utils \<Rightarrow> CalendarStateOptions \<Rightarrow> CalendarHookState \<Rightarrow> CalendarHookState" where
  "focusPreviousPage A U p st =
     (let start = subtract A (startDate st) (visDuration p)
      in (setFocusedDate p st
            (constrainValue (subtract A (focusedDate p st) (visDuration p)) (minValue p) (maxValue p)))
         \<lparr>startDate := constrainStart U (focusedDate p st) start (visDuration p)
                          (localeName p) (minValue p) (maxValue p)\<rparr>)"







definition selectFocusedDate :: "CalendarStateOptions \<Rightarrow> CalendarHookState \<Rightarrow> CalendarHookState \<times> DateValue option" where
  "selectFocusedDate p st = setValue p st (focusedDate p st)"

definition selectDate :: "CalendarStateOptions \<Rightarrow> CalendarHookState \<Rightarrow> CalendarDate \<Rightarrow> CalendarHookState \<times> DateValue option" where
  "selectDate p st date = setValue p st date"


subsection \<open>The queries of the returned state object\<close>

definition state_isInvalid :: "CalendarStateOptions \<Rightarrow> CalendarDate \<Rightarrow> bool" where
  "state_isInvalid p date = isInvalid date (minValue p) (maxValue p)"

definition isCellUnavailable :: "CalendarStateOptions \<Rightarrow> CalendarDate \<Rightarrow> bool" where
  "isCellUnavailable p date = (case isDateUnavailable p of None \<Rightarrow> False | Some f \<Rightarrow> f date)"

definition isCellDisabled :: "calendarArithmetic \<Rightarrow> CalendarStateOptions \<Rightarrow> CalendarHookState \<Rightarrow> CalendarDate \<Rightarrow> bool" where
  "isCellDisabled A p st date =
     (isDisabled p \<or> compare date (startDate st) < 0 \<or> compare date (endDate A p st) > 0 \<or>
      state_isInvalid p date)"

definition isSelected :: "calendarArithmetic \<Rightarrow> CalendarStateOptions \<Rightarrow> CalendarHookState \<Rightarrow> CalendarDate \<Rightarrow> bool" where
  "isSelected A p st date =
     (case calendarDateValue p st of
        None \<Rightarrow> False
      | Some v \<Rightarrow> isSameDay date v \<and> \<not> isCellDisabled A p st date \<and> \<not> isCellUnavailable p date)"

definition isCellFocused :: "CalendarStateOptions \<Rightarrow> CalendarHookState \<Rightarrow> CalendarDate \<Rightarrow> bool" where
  "isCellFocused p st date = (isFocused st \<and> isSameDay date (focusedDate p st))"

definition isPreviousVisibleRangeInvalid :: "calendarArithmetic \<Rightarrow> CalendarStateOptions \<Rightarrow> CalendarHookState \<Rightarrow> bool" where
  "isPreviousVisibleRangeInvalid A p st = state_isInvalid p (subtract A (startDate st) oneDay)"

definition isNextVisibleRangeInvalid :: "calendarArithmetic \<Rightarrow> CalendarStateOptions \<Rightarrow> CalendarHookState \<Rightarrow> bool" where
  "isNextVisibleRangeInvalid A p st = state_isInvalid p (add A (endDate A p st) oneDay)"

subsection \<open>Sequences of operations\<close>




section \<open>Predicates of the statements\<close>

text \<open>A date is neither before the lower bound nor after the upper one, where given.\<close>

definition withinBounds :: "CalendarStateOptions \<Rightarrow> CalendarDate \<Rightarrow> bool" where
  "withinBounds p d =
     ((case minValue p of None \<Rightarrow> True | Some m \<Rightarrow> compare d (toCalendarDate m) \<ge> 0) \<and>
      (case maxValue p of None \<Rightarrow> True | Some m \<Rightarrow> compare d (toCalendarDate m) \<le> 0))"


text \<open>The window of the visible duration that starts at \<open>s\<close> holds the date \<open>d\<close>.\<close>

definition windowHolds :: "calendarArithmetic \<Rightarrow> CalendarStateOptions \<Rightarrow> CalendarDate \<Rightarrow> CalendarDate \<Rightarrow> bool" where
  "windowHolds A p s d = (compare d s \<ge> 0 \<and> compare d (add A s (visDuration p)) < 0)"



section \<open>An instance of the helpers, for the concrete examples\<close>

text \<open>
  Modelled from the spec: \<^verbatim>\<open>alignStart\<close>, \<^verbatim>\<open>alignEnd\<close> and \<^verbatim>\<open>alignCenter\<close> of
  \<^verbatim>\<open>./utils\<close>, which are not among the sources. The spec names three placements of the
  window relative to the focused date: it starts at the date, it ends at the date (the start
  is the date less the duration plus one day, as the end is the start plus the duration less
  one day), or the date is in its middle (the start is the date less half the duration). The
  spec does not say what \<^verbatim>\<open>constrainStart\<close> does; the instance keeps the start it is given.
\<close>

definition halfDuration :: "DateDuration \<Rightarrow> DateDuration" where
  "halfDuration dur =
     \<lparr>years = years dur div 2, months = months dur div 2, weeks = weeks dur div 2,
      days = days dur div 2\<rparr>"

definition specUtils :: "calendarArithmetic \<Rightarrow> utils" where
  "specUtils A =
     \<lparr>alignStart = (\<lambda>d dur loc mn mx. d),
      alignEnd = (\<lambda>d dur loc mn mx. add A (subtract A d dur) oneDay),
      alignCenter = (\<lambda>d dur loc mn mx. subtract A d (halfDuration dur)),
      constrainStart = (\<lambda>d aligned dur loc mn mx. aligned)\<rparr>"

text \<open>An example calendar: years of twelve months, months of thirty days.\<close>

definition thirtyDayMonths :: calendarArithmetic where
  "thirtyDayMonths c x y m = x + 360 * y + 30 * m"

subsection \<open>Concrete options and states\<close>

definition threeDays :: DateDuration where
  "threeDays = \<lparr>years = 0, months = 0, weeks = 0, days = 3\<rparr>"

definition gregorianDay :: "int \<Rightarrow> CalendarDate" where
  "gregorianDay n = \<lparr>calendar = ''gregory'', day = n\<rparr>"

text \<open>
  A calendar that shows three days at a time, with the bounds day 10 and day 20, and
  neither value nor focus given as props.
\<close>

definition exampleOptions :: CalendarStateOptions where
  "exampleOptions =
     \<lparr>localeName = ''en-US'', activeCalendar = ''gregory'', visibleDuration = Some threeDays,
      minValue = Some (dateValue (gregorianDay 10)), maxValue = Some (dateValue (gregorianDay 20)),
      selectionAlignment = None, propValue = None, defaultValue = None, focusedValue = None,
      defaultFocusedValue = None, autoFocus = False, isDisabled = False, isReadOnly = False,
      isDateUnavailable = None\<rparr>"


text \<open>The state with the focus on day \<open>f\<close> and the window starting on day \<open>s\<close>.\<close>

definition exampleState :: "int \<Rightarrow> int \<Rightarrow> CalendarHookState" where
  "exampleState f s =
     \<lparr>stateValue = None, stateFocusedDate = gregorianDay f, startDate = gregorianDay s,
      isFocused = False, lastCalendarIdentifier = ''gregory''\<rparr>"

text \<open>A value with a time of day and a time zone, in another calendar system.\<close>

definition morningValue :: DateValue where
  "morningValue =
     \<lparr>calendar = ''hebrew'', day = 18, time = Some (9, 30, 0, 0), timeZone = Some ''UTC''\<rparr>"

section \<open>Facts about the date library and the helpers\<close>

lemma add_subtract_oneDay: "add A (subtract A d oneDay) oneDay = d"
  by (simp add: subtract_def add_def oneDay_def)


lemma day_toCalendar [simp]: "day (toCalendar d c) = day d"
  by (simp add: toCalendar_def)

lemma withinBounds_iff: "withinBounds p d = (\<not> isInvalid d (minValue p) (maxValue p))"
  by (auto simp: withinBounds_def isInvalid_def split: option.splits)


lemma windowHolds_day: "day d = day e \<Longrightarrow> windowHolds A p s d = windowHolds A p s e"
  by (simp add: windowHolds_def compare_def)


lemma constrainValue_id:
  "withinBounds p d \<Longrightarrow> constrainValue d (minValue p) (maxValue p) = d"
  by (auto simp: withinBounds_def constrainValue_def maxDate_def minDate_def Let_def
        split: option.splits)


lemma specUtils_alignEnd_exact:
  "years dur = 0 \<Longrightarrow> months dur = 0 \<Longrightarrow>
   subtract A (add A (alignEnd (specUtils A) d dur loc mn mx) dur) oneDay = d"
  by (simp add: specUtils_def add_def subtract_def oneDay_def)

lemma exampleOptions_simps [simp]:
  "visDuration exampleOptions = threeDays"
  "minValue exampleOptions = Some (dateValue (gregorianDay 10))"
  "maxValue exampleOptions = Some (dateValue (gregorianDay 20))"
  "focusedValue exampleOptions = None"
  "propValue exampleOptions = None"
  "activeCalendar exampleOptions = ''gregory''"
  "localeName exampleOptions = ''en-US''"
  "isDisabled exampleOptions = False"
  "isReadOnly exampleOptions = False"
  "isDateUnavailable exampleOptions = None"
  by (simp_all add: exampleOptions_def visDuration_def)



section \<open>The focused date as the operations leave it\<close>



lemma focusedDate_frame [simp]:
  "focusedDate p (st\<lparr>startDate := s\<rparr>) = focusedDate p st"
  "focusedDate p (st\<lparr>isFocused := b\<rparr>) = focusedDate p st"
  "focusedDate p (st\<lparr>lastCalendarIdentifier := c\<rparr>) = focusedDate p st"
  "focusedDate p (st\<lparr>stateValue := v\<rparr>) = focusedDate p st"
  by (simp_all add: focusedDate_def split: option.splits)

lemma focusedDate_setValue [simp]: "focusedDate p (fst (setValue p st d)) = focusedDate p st"
  by (auto simp: setValue_def setControlledValue_def Let_def split: option.splits)











section \<open>Render passes until nothing is set\<close>



lemma lastCalendarIdentifier_render [simp]:
  "lastCalendarIdentifier (render A U p st) = activeCalendar p"
  by (auto simp: render_def Let_def setFocusedDate_def)









section \<open>The visible range\<close>

text \<open>
  C3. In every state the end of the visible range is its start plus the visible duration less
  one day, so the day after the end is the start plus the visible duration: the range is as
  long as the visible duration. In particular this holds of the state that
  \<^verbatim>\<open>focusNextPage\<close> or \<^verbatim>\<open>focusPreviousPage\<close> leaves.
\<close>

theorem visible_range_spans_visible_duration:
  "snd (visibleRange A p st) =
     subtract A (add A (fst (visibleRange A p st)) (visDuration p)) oneDay \<and>
   add A (snd (visibleRange A p st)) oneDay = add A (fst (visibleRange A p st)) (visDuration p) \<and>
   add A (snd (visibleRange A p (focusNextPage A U p st))) oneDay =
     add A (fst (visibleRange A p (focusNextPage A U p st))) (visDuration p) \<and>
   add A (snd (visibleRange A p (focusPreviousPage A U p st))) oneDay =
     add A (fst (visibleRange A p (focusPreviousPage A U p st))) (visDuration p)"
  by (simp add: visibleRange_def endDate_def add_subtract_oneDay)

section \<open>Dates given to the operations\<close>





section \<open>The value that a selection emits\<close>

text \<open>
  C5. Unless the calendar is disabled or read-only, \<^verbatim>\<open>setValue\<close> (and so
  \<^verbatim>\<open>selectDate\<close> and \<^verbatim>\<open>selectFocusedDate\<close>) emits the new date converted to the calendar
  system of the original value, or to the Gregorian calendar when there is no value: the
  emitted value denotes the same absolute day as the new date. When the original value has a
  time of day, the emitted value is the original with only its date fields set: it keeps the
  time of day and the time zone. Otherwise the emitted value is a plain date.
\<close>

theorem emitted_value_in_original_calendar:
  assumes "\<not> isDisabled p" and "\<not> isReadOnly p"
  shows "\<exists>v. snd (setValue p st date) = Some v \<and>
           toCalendarDate v =
             toCalendar date
               (case currentValue p st of None \<Rightarrow> GregorianCalendar | Some w \<Rightarrow> calendar w) \<and>
           day v = day date \<and>
           (case currentValue p st of
              None \<Rightarrow> time v = None \<and> timeZone v = None
            | Some w \<Rightarrow>
                if time w \<noteq> None
                then v = set_date w (toCalendar date (calendar w)) \<and>
                     time v = time w \<and> timeZone v = timeZone w
                else time v = None \<and> timeZone v = None) \<and>
           selectDate p st date = setValue p st date \<and>
           selectFocusedDate p st = setValue p st (focusedDate p st)"
  using assms
  by (auto simp: setValue_def setControlledValue_def Let_def selectDate_def selectFocusedDate_def
        toCalendarDate_def toCalendar_def set_date_def dateValue_def split: option.splits)

theorem emitted_value_in_original_calendar_witness:
  "\<not> isDisabled exampleOptions \<and> \<not> isReadOnly exampleOptions \<and>
   snd (setValue exampleOptions ((exampleState 15 15)\<lparr>stateValue := Some morningValue\<rparr>)
          (gregorianDay 16))
     = Some \<lparr>calendar = ''hebrew'', day = 16, time = Some (9, 30, 0, 0), timeZone = Some ''UTC''\<rparr> \<and>
   snd (setValue exampleOptions (exampleState 15 15) (gregorianDay 16))
     = Some \<lparr>calendar = ''gregory'', day = 16, time = None, timeZone = None\<rparr> \<and>
   (\<exists>v. snd (setValue exampleOptions ((exampleState 15 15)\<lparr>stateValue := Some morningValue\<rparr>)
               (gregorianDay 16)) = Some v \<and>
        calendar v = ''hebrew'' \<and> day v = 16 \<and> time v = time morningValue \<and>
        timeZone v = timeZone morningValue)"
proof -
  have e: "snd (setValue exampleOptions ((exampleState 15 15)\<lparr>stateValue := Some morningValue\<rparr>)
                  (gregorianDay 16))
             = Some \<lparr>calendar = ''hebrew'', day = 16, time = Some (9, 30, 0, 0),
                     timeZone = Some ''UTC''\<rparr>"
    by code_simp
  have g: "snd (setValue exampleOptions (exampleState 15 15) (gregorianDay 16))
             = Some \<lparr>calendar = ''gregory'', day = 16, time = None, timeZone = None\<rparr>"
    by code_simp
  have n: "\<not> isDisabled exampleOptions" "\<not> isReadOnly exampleOptions"
    by simp_all
  from e g n
    emitted_value_in_original_calendar [OF n,
      of "(exampleState 15 15)\<lparr>stateValue := Some morningValue\<rparr>" "gregorianDay 16"]
  show ?thesis by (simp add: morningValue_def)
qed

section \<open>A change of calendar system\<close>





section \<open>Realigning the window\<close>

text \<open>
  C7. In a render pass that finds the focused date within the bounds: if the focused date
  precedes \<open>startDate\<close>, the start of the window becomes \<^verbatim>\<open>alignEnd\<close> of the focused
  date; if it does not, and is at or after \<open>startDate + visibleDuration\<close>, the start becomes
  \<^verbatim>\<open>alignStart\<close> of the focused date. This holds whatever the two helpers compute. With the
  helpers as the spec describes them, the focused date is then the end of the visible range
  (for a visible duration in weeks and days) or its start.
\<close>

theorem realign_when_focus_leaves_window:
  assumes "withinBounds p (focusedDate p st)"
  shows "(compare (focusedDate p st) (startDate st) < 0 \<longrightarrow>
            startDate (render A U p st) =
              alignEnd U (focusedDate p st) (visDuration p) (localeName p) (minValue p) (maxValue p)) \<and>
         (compare (focusedDate p st) (startDate st) \<ge> 0 \<and>
          compare (focusedDate p st) (add A (startDate st) (visDuration p)) \<ge> 0 \<longrightarrow>
            startDate (render A U p st) =
              alignStart U (focusedDate p st) (visDuration p) (localeName p) (minValue p) (maxValue p)) \<and>
         (compare (focusedDate p st) (startDate st) < 0 \<and>
          years (visDuration p) = 0 \<and> months (visDuration p) = 0 \<longrightarrow>
            snd (visibleRange A p (render A (specUtils A) p st)) = focusedDate p st) \<and>
         (compare (focusedDate p st) (startDate st) \<ge> 0 \<and>
          compare (focusedDate p st) (add A (startDate st) (visDuration p)) \<ge> 0 \<longrightarrow>
            fst (visibleRange A p (render A (specUtils A) p st)) = focusedDate p st)"
proof -
  have v: "\<not> isInvalid (focusedDate p st) (minValue p) (maxValue p)"
    using assms by (simp add: withinBounds_iff)
  have e: "compare (focusedDate p st) (startDate st) < 0 \<Longrightarrow>
             startDate (render A V p st) =
               alignEnd V (focusedDate p st) (visDuration p) (localeName p) (minValue p) (maxValue p)"
    for V
    using v by (simp add: render_def Let_def setFocusedDate_def)
  have s: "compare (focusedDate p st) (startDate st) \<ge> 0 \<Longrightarrow>
           compare (focusedDate p st) (add A (startDate st) (visDuration p)) \<ge> 0 \<Longrightarrow>
             startDate (render A V p st) =
               alignStart V (focusedDate p st) (visDuration p) (localeName p) (minValue p) (maxValue p)"
    for V
    using v by (simp add: render_def Let_def setFocusedDate_def)
  show ?thesis
    by (simp add: e s visibleRange_def endDate_def specUtils_alignEnd_exact)
       (simp add: specUtils_def)
qed

theorem realign_when_focus_leaves_window_witness:
  "withinBounds exampleOptions (focusedDate exampleOptions (exampleState 14 15)) \<and>
   compare (focusedDate exampleOptions (exampleState 14 15)) (startDate (exampleState 14 15)) = - 1 \<and>
   startDate (render thirtyDayMonths (specUtils thirtyDayMonths) exampleOptions (exampleState 14 15))
     = alignEnd (specUtils thirtyDayMonths) (focusedDate exampleOptions (exampleState 14 15))
         (visDuration exampleOptions) (localeName exampleOptions) (minValue exampleOptions)
         (maxValue exampleOptions) \<and>
   visibleRange thirtyDayMonths exampleOptions
     (render thirtyDayMonths (specUtils thirtyDayMonths) exampleOptions (exampleState 14 15))
     = (gregorianDay 12, gregorianDay 14) \<and>
   withinBounds exampleOptions (focusedDate exampleOptions (exampleState 19 15)) \<and>
   compare (focusedDate exampleOptions (exampleState 19 15))
     (add thirtyDayMonths (startDate (exampleState 19 15)) (visDuration exampleOptions)) = 1 \<and>
   startDate (render thirtyDayMonths (specUtils thirtyDayMonths) exampleOptions (exampleState 19 15))
     = alignStart (specUtils thirtyDayMonths) (focusedDate exampleOptions (exampleState 19 15))
         (visDuration exampleOptions) (localeName exampleOptions) (minValue exampleOptions)
         (maxValue exampleOptions) \<and>
   visibleRange thirtyDayMonths exampleOptions
     (render thirtyDayMonths (specUtils thirtyDayMonths) exampleOptions (exampleState 19 15))
     = (gregorianDay 19, gregorianDay 21)"
proof -
  have w1: "withinBounds exampleOptions (focusedDate exampleOptions (exampleState 14 15))"
    by code_simp
  have w2: "withinBounds exampleOptions (focusedDate exampleOptions (exampleState 19 15))"
    by code_simp
  have c1: "compare (focusedDate exampleOptions (exampleState 14 15)) (startDate (exampleState 14 15)) = - 1"
    by code_simp
  have c2: "compare (focusedDate exampleOptions (exampleState 19 15))
     (add thirtyDayMonths (startDate (exampleState 19 15)) (visDuration exampleOptions)) = 1"
    by code_simp
  have c3: "compare (focusedDate exampleOptions (exampleState 19 15)) (startDate (exampleState 19 15)) = 4"
    by code_simp
  have r1: "visibleRange thirtyDayMonths exampleOptions
     (render thirtyDayMonths (specUtils thirtyDayMonths) exampleOptions (exampleState 14 15))
     = (gregorianDay 12, gregorianDay 14)"
    by code_simp
  have r2: "visibleRange thirtyDayMonths exampleOptions
     (render thirtyDayMonths (specUtils thirtyDayMonths) exampleOptions (exampleState 19 15))
     = (gregorianDay 19, gregorianDay 21)"
    by code_simp
  from realign_when_focus_leaves_window [OF w1, of thirtyDayMonths "specUtils thirtyDayMonths"] c1
  have a1: "startDate (render thirtyDayMonths (specUtils thirtyDayMonths) exampleOptions (exampleState 14 15))
     = alignEnd (specUtils thirtyDayMonths) (focusedDate exampleOptions (exampleState 14 15))
         (visDuration exampleOptions) (localeName exampleOptions) (minValue exampleOptions)
         (maxValue exampleOptions)"
    by linarith
  from realign_when_focus_leaves_window [OF w2, of thirtyDayMonths "specUtils thirtyDayMonths"] c2 c3
  have a2: "startDate (render thirtyDayMonths (specUtils thirtyDayMonths) exampleOptions (exampleState 19 15))
     = alignStart (specUtils thirtyDayMonths) (focusedDate exampleOptions (exampleState 19 15))
         (visDuration exampleOptions) (localeName exampleOptions) (minValue exampleOptions)
         (maxValue exampleOptions)"
    by linarith
  from w1 w2 c1 c2 r1 r2 a1 a2 show ?thesis by blast
qed

section \<open>Rendering twice\<close>




section \<open>Selection and the cells of the grid\<close>

text \<open>
  C9. When the calendar is disabled or read-only, \<^verbatim>\<open>selectDate\<close> and
  \<^verbatim>\<open>selectFocusedDate\<close> return the state as it was and emit nothing: the selected value is
  unchanged.
\<close>

theorem disabled_or_read_only_selects_nothing:
  assumes "isDisabled p \<or> isReadOnly p"
  shows "selectDate p st date = (st, None) \<and> selectFocusedDate p st = (st, None) \<and>
         currentValue p (fst (selectDate p st date)) = currentValue p st \<and>
         currentValue p (fst (selectFocusedDate p st)) = currentValue p st"
  using assms by (auto simp: selectDate_def selectFocusedDate_def setValue_def)

theorem disabled_or_read_only_selects_nothing_witness:
  "(isDisabled (exampleOptions\<lparr>isReadOnly := True\<rparr>) \<or> isReadOnly (exampleOptions\<lparr>isReadOnly := True\<rparr>)) \<and>
   selectDate (exampleOptions\<lparr>isReadOnly := True\<rparr>) (exampleState 15 15) (gregorianDay 16)
     = (exampleState 15 15, None) \<and>
   selectFocusedDate (exampleOptions\<lparr>isReadOnly := True\<rparr>) (exampleState 15 15)
     = (exampleState 15 15, None) \<and>
   snd (selectDate exampleOptions (exampleState 15 15) (gregorianDay 16))
     = Some (dateValue (gregorianDay 16))"
proof -
  have h: "isDisabled (exampleOptions\<lparr>isReadOnly := True\<rparr>) \<or> isReadOnly (exampleOptions\<lparr>isReadOnly := True\<rparr>)"
    by simp
  have e: "snd (selectDate exampleOptions (exampleState 15 15) (gregorianDay 16))
     = Some (dateValue (gregorianDay 16))"
    by code_simp
  from h e disabled_or_read_only_selects_nothing [OF h, of "exampleState 15 15" "gregorianDay 16"]
  show ?thesis by blast
qed

text \<open>
  C10. \<^verbatim>\<open>isCellDisabled(date)\<close> is true of every date before the start or after the end of
  the visible range, also of one within the bounds in a calendar that is not disabled; and
  \<^verbatim>\<open>isSelected(date)\<close> is false of every such date, also of the day of the selected value.
\<close>

theorem cells_outside_visible_range_disabled:
  assumes "compare date (fst (visibleRange A p st)) < 0 \<or>
           compare date (snd (visibleRange A p st)) > 0"
  shows "isCellDisabled A p st date \<and> \<not> isSelected A p st date"
  using assms
  by (auto simp: isCellDisabled_def isSelected_def visibleRange_def split: option.splits)

theorem cells_outside_visible_range_disabled_witness:
  "compare (gregorianDay 18)
     (snd (visibleRange thirtyDayMonths exampleOptions
             ((exampleState 16 15)\<lparr>stateValue := Some (dateValue (gregorianDay 18))\<rparr>))) = 1 \<and>
   \<not> isDisabled exampleOptions \<and>
   withinBounds exampleOptions (gregorianDay 18) \<and>
   calendarDateValue exampleOptions
     ((exampleState 16 15)\<lparr>stateValue := Some (dateValue (gregorianDay 18))\<rparr>)
     = Some (gregorianDay 18) \<and>
   isCellDisabled thirtyDayMonths exampleOptions
     ((exampleState 16 15)\<lparr>stateValue := Some (dateValue (gregorianDay 18))\<rparr>) (gregorianDay 18) \<and>
   \<not> isSelected thirtyDayMonths exampleOptions
     ((exampleState 16 15)\<lparr>stateValue := Some (dateValue (gregorianDay 18))\<rparr>) (gregorianDay 18) \<and>
   isSelected thirtyDayMonths exampleOptions
     ((exampleState 18 18)\<lparr>stateValue := Some (dateValue (gregorianDay 18))\<rparr>) (gregorianDay 18)"
proof -
  have c: "compare (gregorianDay 18)
     (snd (visibleRange thirtyDayMonths exampleOptions
             ((exampleState 16 15)\<lparr>stateValue := Some (dateValue (gregorianDay 18))\<rparr>))) = 1"
    by code_simp
  then have h: "compare (gregorianDay 18)
       (fst (visibleRange thirtyDayMonths exampleOptions
               ((exampleState 16 15)\<lparr>stateValue := Some (dateValue (gregorianDay 18))\<rparr>))) < 0 \<or>
     compare (gregorianDay 18)
       (snd (visibleRange thirtyDayMonths exampleOptions
               ((exampleState 16 15)\<lparr>stateValue := Some (dateValue (gregorianDay 18))\<rparr>))) > 0"
    by simp
  have n: "\<not> isDisabled exampleOptions" by simp
  have w: "withinBounds exampleOptions (gregorianDay 18)" by code_simp
  have v: "calendarDateValue exampleOptions
     ((exampleState 16 15)\<lparr>stateValue := Some (dateValue (gregorianDay 18))\<rparr>)
     = Some (gregorianDay 18)"
    by code_simp
  have s: "isSelected thirtyDayMonths exampleOptions
     ((exampleState 18 18)\<lparr>stateValue := Some (dateValue (gregorianDay 18))\<rparr>) (gregorianDay 18)"
    by code_simp
  from c n w v s cells_outside_visible_range_disabled [OF h] show ?thesis by blast
qed

end
